theory Spec2Isabelle
  imports Main "HOL-Library.Sublist"
begin

section \<open>Checkpoint persistence of optimizer and scheduler state\<close>

text \<open>
  A shallow embedding of \<^verbatim>\<open>nanotron/serialize/optimizer.py\<close>: the shard naming scheme
  (\<^verbatim>\<open>optimizer_filename\<close>, \<^verbatim>\<open>lr_scheduler_filename\<close>) and the four persistence
  operations \<^verbatim>\<open>save_optimizer\<close>, \<^verbatim>\<open>save_lr_scheduler\<close>, \<^verbatim>\<open>load_optimizer\<close> and
  \<^verbatim>\<open>load_lr_scheduler\<close>. The file system, the serialization codec and the optimizer
  object are collaborators of that module; they are modelled as explicit state.
\<close>

subsection \<open>Rendering of integers inside f-strings\<close>

text \<open>
  Python's \<^verbatim>\<open>str\<close> on a non-negative integer: the decimal digits, most significant
  first, no leading zero. Ranks and world sizes are indices and sizes of process groups,
  hence natural numbers.
\<close>

definition digit_of :: "nat \<Rightarrow> char" where
  "digit_of d = char_of (48 + d)"

fun str :: "nat \<Rightarrow> string" where
  "str n = (if n div 10 = 0 then [] else str (n div 10)) @ [digit_of (n mod 10)]"

declare str.simps [simp del]

definition digit_val :: "char \<Rightarrow> nat" where
  "digit_val c = of_char c - 48"

definition is_digit :: "char \<Rightarrow> bool" where
  "is_digit c = (48 \<le> (of_char c :: nat) \<and> (of_char c :: nat) \<le> 57)"

definition int_of_str :: "string \<Rightarrow> nat" where
  "int_of_str s = foldl (\<lambda>a c. 10 * a + digit_val c) 0 s"

subsection \<open>The parallel context\<close>

datatype ParallelMode = GLOBAL | DATA | PIPELINE | TENSOR

text \<open>
  Modelled from the spec: the class \<^verbatim>\<open>ParallelContext\<close> of \<^verbatim>\<open>nanotron.distributed\<close>
  is not part of the sources. The spec's ParallelCoordinate is an immutable per-process
  tuple of a rank and a group size along each axis, and the process's global rank; the
  module reads it through \<^verbatim>\<open>get_local_rank\<close>, \<^verbatim>\<open>get_world_size\<close> and
  \<^verbatim>\<open>get_global_rank\<close> only.
\<close>

record ParallelContext =
  local_ranks :: "ParallelMode \<Rightarrow> nat"
  world_sizes :: "ParallelMode \<Rightarrow> nat"
  global_rank :: nat

definition get_local_rank :: "ParallelContext \<Rightarrow> ParallelMode \<Rightarrow> nat" where
  "get_local_rank parallel_context mode = local_ranks parallel_context mode"

definition get_world_size :: "ParallelContext \<Rightarrow> ParallelMode \<Rightarrow> nat" where
  "get_world_size parallel_context mode = world_sizes parallel_context mode"

definition get_global_rank :: "ParallelContext \<Rightarrow> nat" where
  "get_global_rank parallel_context = global_rank parallel_context"

text \<open>
  A context as the process-group layer builds it: every group has at least one member,
  every rank lies inside its group.
\<close>

definition valid_context :: "ParallelContext \<Rightarrow> bool" where
  "valid_context pc =
     (list_all (\<lambda>m. local_ranks pc m < world_sizes pc m) [GLOBAL, DATA, PIPELINE, TENSOR]
      \<and> global_rank pc < world_sizes pc GLOBAL)"

text \<open>A context given by its pipeline, data and tensor coordinates (rank, size).\<close>

definition mk_context ::
  "nat \<times> nat \<Rightarrow> nat \<times> nat \<Rightarrow> nat \<times> nat \<Rightarrow> nat \<times> nat \<Rightarrow> ParallelContext" where
  "mk_context pp dp tp g =
     \<lparr> local_ranks = (\<lambda>m. case m of GLOBAL \<Rightarrow> fst g | DATA \<Rightarrow> fst dp
                                 | PIPELINE \<Rightarrow> fst pp | TENSOR \<Rightarrow> fst tp),
       world_sizes = (\<lambda>m. case m of GLOBAL \<Rightarrow> snd g | DATA \<Rightarrow> snd dp
                                 | PIPELINE \<Rightarrow> snd pp | TENSOR \<Rightarrow> snd tp),
       global_rank = fst g \<rparr>"

subsection \<open>Shard naming\<close>

datatype ObjectType = OPTIMIZER | LR_SCHEDULER

text \<open>
  Modelled from the spec: the enum \<^verbatim>\<open>ObjectType\<close> of \<^verbatim>\<open>nanotron.serialize.utils\<close> is not
  part of the sources. The spec's file layout names the optimizer shards
  \<^verbatim>\<open>optimizer_pp-...\<close> and the scheduler file \<^verbatim>\<open>lr_scheduler.pt\<close>, which fixes the two
  values the module uses.
\<close>

fun ObjectType_value :: "ObjectType \<Rightarrow> string" where
  "ObjectType_value OPTIMIZER = ''optimizer''"
| "ObjectType_value LR_SCHEDULER = ''lr_scheduler''"

text \<open>An f-string is a sequence of literal text and interpolated values.\<close>

datatype piece = Lit string | Str string | Num nat

fun render :: "piece \<Rightarrow> string" where
  "render (Lit s) = s"
| "render (Str s) = s"
| "render (Num n) = str n"

definition fstring :: "piece list \<Rightarrow> string" where
  "fstring ps = concat (map render ps)"

definition optimizer_filename :: "ParallelContext \<Rightarrow> bool \<Rightarrow> string" where
  "optimizer_filename parallel_context is_zero =
     (let dp_rank = get_local_rank parallel_context DATA;
          pp_rank = get_local_rank parallel_context PIPELINE;
          dp_world_size = get_world_size parallel_context DATA;
          pp_world_size = get_world_size parallel_context PIPELINE
      in if is_zero = True then
           (let tp_rank = get_local_rank parallel_context TENSOR;
                tp_world_size = get_world_size parallel_context TENSOR
            in fstring [Str (ObjectType_value OPTIMIZER),
                 Lit ''_pp-'', Num pp_rank, Lit ''-of-'', Num pp_world_size,
                 Lit ''_dp-'', Num dp_rank, Lit ''-of-'', Num dp_world_size,
                 Lit ''_tp-'', Num tp_rank, Lit ''-of-'', Num tp_world_size, Lit ''.pt''])
         else
           fstring [Str (ObjectType_value OPTIMIZER),
             Lit ''_pp-'', Num pp_rank, Lit ''-of-'', Num pp_world_size,
             Lit ''_tp-'', Num dp_rank, Lit ''-of-'', Num dp_world_size, Lit ''.pt''])"

definition lr_scheduler_filename :: string where
  "lr_scheduler_filename = fstring [Str (ObjectType_value LR_SCHEDULER), Lit ''.pt'']"

subsection \<open>The file system and the external calls\<close>

text \<open>
  A \<^verbatim>\<open>pathlib.Path\<close> is the list of its components; \<^verbatim>\<open>p / name\<close> appends one.
  A file holds either the JSON text of the manifest or a payload written by
  \<^verbatim>\<open>torch.save\<close>; the payload type \<open>'st\<close> is the opaque state mapping.
\<close>

type_synonym path = "string list"

datatype 'st content = Json "(string \<times> string) list" | Pickle 'st

datatype 'st node = Dir | File "'st content"

datatype error =
  FileNotFoundError | FileExistsError | NotADirectoryError | IsADirectoryError | UnpicklingError

text \<open>
  The calls the module makes to its collaborators, in the order it makes them:
  \<^verbatim>\<open>Path.mkdir\<close>, \<^verbatim>\<open>json.dump\<close> into a file opened for writing, \<^verbatim>\<open>torch.save\<close>,
  \<^verbatim>\<open>torch.load\<close> with its \<^verbatim>\<open>map_location\<close>, and \<^verbatim>\<open>load_state_dict\<close>.
\<close>

datatype 'st call =
    Mkdir path
  | JsonDump path "(string \<times> string) list"
  | TorchSave path 'st
  | TorchLoad path "string option"
  | LoadStateDict 'st

record 'st world =
  files :: "path \<Rightarrow> 'st node option"
  calls :: "'st call list"

fun is_file :: "'st node option \<Rightarrow> bool" where
  "is_file (Some (File c)) = True"
| "is_file n = False"

definition log_call :: "'st call \<Rightarrow> 'st world \<Rightarrow> 'st world" where
  "log_call c w = w\<lparr>calls := calls w @ [c]\<rparr>"

text \<open>
  \<^verbatim>\<open>p.mkdir(exist_ok=True, parents=True)\<close>: creates \<open>p\<close> and every missing ancestor;
  an existing directory is accepted; a regular file at \<open>p\<close> or at an ancestor raises.
\<close>

definition mkdir :: "path \<Rightarrow> 'st world \<Rightarrow> error option \<times> 'st world" where
  "mkdir p w =
     (let w1 = log_call (Mkdir p) w in
      if is_file (files w p) then (Some FileExistsError, w1)
      else if list_ex (\<lambda>q. is_file (files w q)) (prefixes p) then (Some NotADirectoryError, w1)
      else (None, w1\<lparr>files := (\<lambda>q. if prefix q p then Some Dir else files w q)\<rparr>))"

text \<open>
  Opening \<open>p\<close> for writing and storing \<open>c\<close>: the parent must be a directory and \<open>p\<close>
  must not be one; an existing file is replaced.
\<close>

definition write_file :: "path \<Rightarrow> 'st content \<Rightarrow> 'st world \<Rightarrow> error option \<times> 'st world" where
  "write_file p c w =
     (case files w (butlast p) of
        None \<Rightarrow> (Some FileNotFoundError, w)
      | Some (File x) \<Rightarrow> (Some NotADirectoryError, w)
      | Some Dir \<Rightarrow>
          (case files w p of
             Some Dir \<Rightarrow> (Some IsADirectoryError, w)
           | Some (File x) \<Rightarrow> (None, w\<lparr>files := (files w)(p \<mapsto> File c)\<rparr>)
           | None \<Rightarrow> (None, w\<lparr>files := (files w)(p \<mapsto> File c)\<rparr>)))"

definition json_dump ::
  "(string \<times> string) list \<Rightarrow> path \<Rightarrow> 'st world \<Rightarrow> error option \<times> 'st world" where
  "json_dump doc p w = write_file p (Json doc) (log_call (JsonDump p doc) w)"

definition torch_save :: "'st \<Rightarrow> path \<Rightarrow> 'st world \<Rightarrow> error option \<times> 'st world" where
  "torch_save obj p w = write_file p (Pickle obj) (log_call (TorchSave p obj) w)"

definition torch_load ::
  "path \<Rightarrow> string option \<Rightarrow> 'st world \<Rightarrow> (error + 'st) \<times> 'st world" where
  "torch_load p map_location w =
     (let w1 = log_call (TorchLoad p map_location) w in
      case files w p of
        None \<Rightarrow> (Inl FileNotFoundError, w1)
      | Some Dir \<Rightarrow> (Inl IsADirectoryError, w1)
      | Some (File (Json doc)) \<Rightarrow> (Inl UnpicklingError, w1)
      | Some (File (Pickle obj)) \<Rightarrow> (Inr obj, w1))"

subsection \<open>The optimizer and the scheduler objects\<close>

datatype optim_class =
  BaseOptimizer | NamedOptimizer | OptimizerFromGradientAccumulator | ZeroDistributedOptimizer

text \<open>
  Modelled from the spec: the module \<^verbatim>\<open>nanotron.core.optim\<close> is not part of the sources.
  The spec's optimizer object exposes \<^verbatim>\<open>state_dict()\<close>, \<^verbatim>\<open>load_state_dict(state)\<close> and
  the query whether it is in sharded mode, which the module asks as
  \<^verbatim>\<open>inherit_from(optim.ZeroDistributedOptimizer)\<close>; the manifest records its class name.
\<close>

record 'st optimizer =
  class_name :: string
  lineage :: "optim_class list"
  state :: 'st

definition inherit_from :: "'st optimizer \<Rightarrow> optim_class \<Rightarrow> bool" where
  "inherit_from optimizer cls = (cls \<in> set (lineage optimizer))"

definition state_dict :: "'st optimizer \<Rightarrow> 'st" where
  "state_dict optimizer = state optimizer"

definition load_state_dict ::
  "'st optimizer \<Rightarrow> 'st \<Rightarrow> 'st world \<Rightarrow> error option \<times> 'st optimizer \<times> 'st world" where
  "load_state_dict optimizer sd w =
     (None, optimizer\<lparr>state := sd\<rparr>, log_call (LoadStateDict sd) w)"

text \<open>
  Modelled from the spec: the scheduler object exposes \<^verbatim>\<open>state_dict()\<close> and
  \<^verbatim>\<open>load_state_dict(state)\<close> symmetrically, with no mode query.
\<close>

record 'st lr_scheduler =
  sched_state :: 'st

definition sched_state_dict :: "'st lr_scheduler \<Rightarrow> 'st" where
  "sched_state_dict s = sched_state s"

definition sched_load_state_dict ::
  "'st lr_scheduler \<Rightarrow> 'st \<Rightarrow> 'st world \<Rightarrow> error option \<times> 'st lr_scheduler \<times> 'st world" where
  "sched_load_state_dict s sd w =
     (None, s\<lparr>sched_state := sd\<rparr>, log_call (LoadStateDict sd) w)"

subsection \<open>Saving and loading\<close>

definition save_optimizer ::
  "'st optimizer \<Rightarrow> ParallelContext \<Rightarrow> path \<Rightarrow> 'st world \<Rightarrow> error option \<times> 'st world" where
  "save_optimizer optimizer parallel_context root_folder w =
     (let root_folder = root_folder @ [''optimizer''] in
      case mkdir root_folder w of
        (Some e, w1) \<Rightarrow> (Some e, w1)
      | (None, w1) \<Rightarrow>
          (case (if get_world_size parallel_context GLOBAL = 0
                 then json_dump [(''type'', class_name optimizer)]
                        (root_folder @ [''optimizer_config.json'']) w1
                 else (None, w1)) of
             (Some e, w2) \<Rightarrow> (Some e, w2)
           | (None, w2) \<Rightarrow>
               (let dp_rank = get_local_rank parallel_context DATA in
                if (\<not> inherit_from optimizer ZeroDistributedOptimizer) \<and> dp_rank > 0
                then (None, w2)
                else torch_save (state_dict optimizer)
                       (root_folder @ [optimizer_filename parallel_context
                          (inherit_from optimizer ZeroDistributedOptimizer)]) w2)))"

definition save_lr_scheduler ::
  "'st lr_scheduler \<Rightarrow> ParallelContext \<Rightarrow> path \<Rightarrow> 'st world \<Rightarrow> error option \<times> 'st world" where
  "save_lr_scheduler lr_scheduler parallel_context root_folder w =
     (if get_global_rank parallel_context > 0 then (None, w)
      else
        (let root_folder = root_folder @ [''lr_scheduler''] in
         case mkdir root_folder w of
           (Some e, w1) \<Rightarrow> (Some e, w1)
         | (None, w1) \<Rightarrow>
             torch_save (sched_state_dict lr_scheduler)
               (root_folder @ [lr_scheduler_filename]) w1))"

definition load_optimizer ::
  "'st optimizer \<Rightarrow> ParallelContext \<Rightarrow> path \<Rightarrow> string option \<Rightarrow> 'st world
     \<Rightarrow> error option \<times> 'st optimizer \<times> 'st world" where
  "load_optimizer optimizer parallel_context root_folder map_location w =
     (let root_folder = root_folder @ [''optimizer''];
          map_location = (if \<not> inherit_from optimizer ZeroDistributedOptimizer
                          then Some ''cpu'' else map_location)
      in case torch_load
                (root_folder @ [optimizer_filename parallel_context
                   (inherit_from optimizer ZeroDistributedOptimizer)])
                map_location w of
           (Inl e, w1) \<Rightarrow> (Some e, optimizer, w1)
         | (Inr sd, w1) \<Rightarrow> load_state_dict optimizer sd w1)"

definition load_lr_scheduler ::
  "'st lr_scheduler \<Rightarrow> path \<Rightarrow> 'st world
     \<Rightarrow> error option \<times> 'st lr_scheduler \<times> 'st world" where
  "load_lr_scheduler lr_scheduler root_folder w =
     (let root_folder = root_folder @ [''lr_scheduler''] in
      case torch_load (root_folder @ [lr_scheduler_filename]) None w of
        (Inl e, w1) \<Rightarrow> (Some e, lr_scheduler, w1)
      | (Inr sd, w1) \<Rightarrow> sched_load_state_dict lr_scheduler sd w1)"

subsection \<open>Vocabulary of the properties\<close>

text \<open>The calls made between two states of the world.\<close>

definition new_calls :: "'st world \<Rightarrow> 'st world \<Rightarrow> 'st call list" where
  "new_calls w w' = drop (length (calls w)) (calls w')"

text \<open>The \<^verbatim>\<open>map_location\<close> of every \<^verbatim>\<open>torch.load\<close> in a sequence of calls.\<close>

fun torch_load_locations :: "'st call list \<Rightarrow> string option list" where
  "torch_load_locations [] = []"
| "torch_load_locations (TorchLoad p ml # cs) = ml # torch_load_locations cs"
| "torch_load_locations (c # cs) = torch_load_locations cs"

text \<open>The paths of every \<^verbatim>\<open>torch.save\<close> in a sequence of calls.\<close>

fun torch_save_paths :: "'st call list \<Rightarrow> path list" where
  "torch_save_paths [] = []"
| "torch_save_paths (TorchSave p obj # cs) = p # torch_save_paths cs"
| "torch_save_paths (c # cs) = torch_save_paths cs"

text \<open>
  The ownership predicate in the spec's words:
  \<^verbatim>\<open>owns_write = (mode == SHARDED) OR (data_rank == 0)\<close>.
\<close>

definition spec_owns_write :: "bool \<Rightarrow> nat \<Rightarrow> bool" where
  "spec_owns_write sharded data_rank = (sharded \<or> data_rank = 0)"

text \<open>A fresh file system, and optimizers of the two replication modes.\<close>

definition empty_world :: "'st world" where
  "empty_world = \<lparr>files = (\<lambda>p. None), calls = []\<rparr>"

definition replicated_optimizer :: "'st \<Rightarrow> 'st optimizer" where
  "replicated_optimizer s =
     \<lparr>class_name = ''NamedOptimizer'', lineage = [NamedOptimizer, BaseOptimizer], state = s\<rparr>"

definition sharded_optimizer :: "'st \<Rightarrow> 'st optimizer" where
  "sharded_optimizer s =
     \<lparr>class_name = ''ZeroDistributedOptimizer'',
      lineage = [ZeroDistributedOptimizer, NamedOptimizer, BaseOptimizer], state = s\<rparr>"

section \<open>Properties\<close>

subsection \<open>Decimal rendering\<close>

lemma digit_of_simps:
  "digit_of 0 = CHR ''0''" "digit_of 1 = CHR ''1''" "digit_of (Suc 0) = CHR ''1''"
  "digit_of 2 = CHR ''2''" "digit_of 3 = CHR ''3''" "digit_of 4 = CHR ''4''"
  "digit_of 5 = CHR ''5''" "digit_of 6 = CHR ''6''" "digit_of 7 = CHR ''7''"
  "digit_of 8 = CHR ''8''" "digit_of 9 = CHR ''9''"
  by code_simp+

lemma digit_val_digit_of: "d < 10 \<Longrightarrow> digit_val (digit_of d) = d"
  by (simp add: digit_val_def digit_of_def)

lemma is_digit_digit_of: "d < 10 \<Longrightarrow> is_digit (digit_of d)"
  by (simp add: is_digit_def digit_of_def)

lemma int_of_str_snoc: "int_of_str (s @ [c]) = 10 * int_of_str s + digit_val c"
  by (simp add: int_of_str_def)

text \<open>Reading the digits back gives the number: the rendering loses nothing.\<close>

lemma int_of_str_str: "int_of_str (str n) = n"
proof (induction n rule: str.induct)
  case (1 n)
  show ?case
  proof (cases "n div 10 = 0")
    case True
    then have "n < 10" by simp
    then show ?thesis
      by (subst str.simps) (simp add: True int_of_str_def digit_val_digit_of)
  next
    case False
    with 1 have IH: "int_of_str (str (n div 10)) = n div 10" by simp
    show ?thesis
      by (subst str.simps) (simp add: False int_of_str_snoc IH digit_val_digit_of)
  qed
qed

lemma str_eq_iff [simp]: "(str a = str b) = (a = b)"
  by (metis int_of_str_str)

lemma str_digits: "list_all is_digit (str n)"
proof (induction n rule: str.induct)
  case (1 n)
  show ?case
    by (subst str.simps) (use 1 in \<open>simp add: is_digit_digit_of\<close>)
qed

text \<open>Two runs of digits, each closed by a separator, are equal only piece by piece.\<close>

lemma digits_then_sep:
  "list_all is_digit u \<Longrightarrow> list_all is_digit v \<Longrightarrow> \<not> is_digit a \<Longrightarrow> \<not> is_digit b
     \<Longrightarrow> u @ a # r = v @ b # s \<Longrightarrow> u = v \<and> a = b \<and> r = s"
proof (induction u arbitrary: v)
  case Nil
  then show ?case by (cases v) auto
next
  case (Cons x u)
  then show ?case by (cases v) auto
qed

lemma sep_chars: "\<not> is_digit CHR ''-''" "\<not> is_digit CHR ''_''" "\<not> is_digit CHR ''.''"
  by (simp_all add: is_digit_def)

lemma str_sep_eq [simp]:
  "\<not> is_digit a \<Longrightarrow> \<not> is_digit b \<Longrightarrow>
     (str m @ a # r = str n @ b # s) = (m = n \<and> a = b \<and> r = s)"
  using digits_then_sep [OF str_digits str_digits, of a b m r n s] by auto

subsection \<open>Shard names\<close>

lemmas context_defs = mk_context_def get_local_rank_def get_world_size_def get_global_rank_def

lemma optimizer_filename_sharded_eq:
  "(optimizer_filename a True = optimizer_filename b True) =
     (list_all (\<lambda>m. get_local_rank a m = get_local_rank b m
                   \<and> get_world_size a m = get_world_size b m) [PIPELINE, DATA, TENSOR])"
  by (simp add: optimizer_filename_def fstring_def sep_chars)

lemma optimizer_filename_replicated_eq:
  "(optimizer_filename a False = optimizer_filename b False) =
     (list_all (\<lambda>m. get_local_rank a m = get_local_rank b m
                   \<and> get_world_size a m = get_world_size b m) [PIPELINE, DATA])"
  by (simp add: optimizer_filename_def fstring_def sep_chars)

text \<open>
  C4: for every parallel context, \<^verbatim>\<open>optimizer_filename\<close> is exactly
  \<^verbatim>\<open>optimizer_pp-{pp_rank}-of-{pp_world_size}_dp-{dp_rank}-of-{dp_world_size}_tp-{tp_rank}-of-{tp_world_size}.pt\<close>
  when \<^verbatim>\<open>is_zero\<close> is true, and exactly
  \<^verbatim>\<open>optimizer_pp-{pp_rank}-of-{pp_world_size}_tp-{dp_rank}-of-{dp_world_size}.pt\<close> when it is
  false: there the data-parallel rank and world size stand under the \<^verbatim>\<open>tp\<close> label, and
  the tensor coordinate has no influence on the name.
\<close>

theorem optimizer_filename_format:
  "optimizer_filename pc True =
     ''optimizer_pp-'' @ str (get_local_rank pc PIPELINE) @ ''-of-'' @ str (get_world_size pc PIPELINE)
     @ ''_dp-'' @ str (get_local_rank pc DATA) @ ''-of-'' @ str (get_world_size pc DATA)
     @ ''_tp-'' @ str (get_local_rank pc TENSOR) @ ''-of-'' @ str (get_world_size pc TENSOR) @ ''.pt''
   \<and> optimizer_filename pc False =
     ''optimizer_pp-'' @ str (get_local_rank pc PIPELINE) @ ''-of-'' @ str (get_world_size pc PIPELINE)
     @ ''_tp-'' @ str (get_local_rank pc DATA) @ ''-of-'' @ str (get_world_size pc DATA) @ ''.pt''
   \<and> optimizer_filename
        (pc\<lparr>local_ranks := (local_ranks pc)(TENSOR := r), world_sizes := (world_sizes pc)(TENSOR := n)\<rparr>)
        False = optimizer_filename pc False"
  by (simp add: optimizer_filename_def fstring_def get_local_rank_def get_world_size_def)

text \<open>The names of the spec's scenarios A and B (2 pipeline stages, 2 data-parallel ranks).\<close>

lemma optimizer_filename_scenarios:
  "optimizer_filename (mk_context (0, 2) (0, 2) (0, 1) (0, 4)) True
     = ''optimizer_pp-0-of-2_dp-0-of-2_tp-0-of-1.pt''
   \<and> optimizer_filename (mk_context (1, 2) (1, 2) (0, 1) (3, 4)) True
     = ''optimizer_pp-1-of-2_dp-1-of-2_tp-0-of-1.pt''
   \<and> optimizer_filename (mk_context (1, 2) (0, 2) (0, 1) (2, 4)) False
     = ''optimizer_pp-1-of-2_tp-0-of-2.pt''"
  by (simp add: optimizer_filename_def fstring_def context_defs str.simps digit_of_simps)

text \<open>
  C1: the claim is that the shard name separates the ownership classes, which in
  REPLICATED mode are told apart by the pipeline and tensor coordinates. The code does
  not do so: with one pipeline stage, one data-parallel rank and two tensor-parallel
  ranks, both processes own a write in REPLICATED mode, their tensor ranks differ, and
  both compute the name \<^verbatim>\<open>optimizer_pp-0-of-1_tp-0-of-1.pt\<close>.
\<close>

theorem optimizer_filename_replicated_collision:
  "valid_context (mk_context (0, 1) (0, 1) (0, 2) (0, 2))
   \<and> valid_context (mk_context (0, 1) (0, 1) (1, 2) (1, 2))
   \<and> get_local_rank (mk_context (0, 1) (0, 1) (0, 2) (0, 2)) TENSOR
       \<noteq> get_local_rank (mk_context (0, 1) (0, 1) (1, 2) (1, 2)) TENSOR
   \<and> spec_owns_write False (get_local_rank (mk_context (0, 1) (0, 1) (0, 2) (0, 2)) DATA)
   \<and> spec_owns_write False (get_local_rank (mk_context (0, 1) (0, 1) (1, 2) (1, 2)) DATA)
   \<and> optimizer_filename (mk_context (0, 1) (0, 1) (0, 2) (0, 2)) False
       = ''optimizer_pp-0-of-1_tp-0-of-1.pt''
   \<and> optimizer_filename (mk_context (0, 1) (0, 1) (1, 2) (1, 2)) False
       = ''optimizer_pp-0-of-1_tp-0-of-1.pt''"
  by (simp add: optimizer_filename_def fstring_def context_defs valid_context_def
        spec_owns_write_def str.simps digit_of_simps)

subsection \<open>The external calls\<close>

lemma mkdir_calls: "calls (snd (mkdir p w)) = calls w @ [Mkdir p]"
  by (simp add: mkdir_def log_call_def Let_def)

lemma mkdir_ok:
  "mkdir p w = (None, w1) \<Longrightarrow>
     w1 = w\<lparr>files := (\<lambda>q. if prefix q p then Some Dir else files w q),
            calls := calls w @ [Mkdir p]\<rparr>"
  by (auto simp: mkdir_def log_call_def Let_def split: if_splits)

lemma mkdir_err: "mkdir p w = (Some e, w1) \<Longrightarrow> w1 = w\<lparr>calls := calls w @ [Mkdir p]\<rparr>"
  by (auto simp: mkdir_def log_call_def Let_def split: if_splits)

lemma write_file_ok:
  "write_file p c w = (None, w1) \<Longrightarrow> w1 = w\<lparr>files := (files w)(p \<mapsto> File c)\<rparr>"
  by (auto simp: write_file_def split: option.splits node.splits)

lemma write_file_err: "write_file p c w = (Some e, w1) \<Longrightarrow> w1 = w"
  by (auto simp: write_file_def split: option.splits node.splits)

lemma write_file_calls: "calls (snd (write_file p c w)) = calls w"
  by (auto simp: write_file_def split: option.splits node.splits)

lemma torch_save_calls: "calls (snd (torch_save obj p w)) = calls w @ [TorchSave p obj]"
  by (simp add: torch_save_def write_file_calls log_call_def)

lemma json_dump_calls: "calls (snd (json_dump doc p w)) = calls w @ [JsonDump p doc]"
  by (simp add: json_dump_def write_file_calls log_call_def)

lemma torch_save_ok:
  "torch_save obj p w = (None, w1) \<Longrightarrow>
     w1 = w\<lparr>files := (files w)(p \<mapsto> File (Pickle obj)),
            calls := calls w @ [TorchSave p obj]\<rparr>"
  by (auto simp: torch_save_def log_call_def dest!: write_file_ok)

lemma torch_save_err:
  "torch_save obj p w = (Some e, w1) \<Longrightarrow> w1 = w\<lparr>calls := calls w @ [TorchSave p obj]\<rparr>"
  by (auto simp: torch_save_def log_call_def dest!: write_file_err)

lemmas io_defs = mkdir_def write_file_def json_dump_def torch_save_def torch_load_def
  log_call_def load_state_dict_def sched_load_state_dict_def state_dict_def sched_state_dict_def

lemmas eval_defs = io_defs Let_def empty_world_def replicated_optimizer_def sharded_optimizer_def
  inherit_from_def context_defs optimizer_filename_def lr_scheduler_filename_def fstring_def
  str.simps digit_of_simps valid_context_def spec_owns_write_def new_calls_def

subsection \<open>Saving the optimizer\<close>

lemma save_optimizer_valid:
  assumes "get_world_size pc GLOBAL \<noteq> 0"
  shows "save_optimizer opt pc root w =
     (case mkdir (root @ [''optimizer'']) w of
        (Some e, w1) \<Rightarrow> (Some e, w1)
      | (None, w1) \<Rightarrow>
          if spec_owns_write (inherit_from opt ZeroDistributedOptimizer) (get_local_rank pc DATA)
          then torch_save (state_dict opt)
                 (root @ [''optimizer'',
                    optimizer_filename pc (inherit_from opt ZeroDistributedOptimizer)]) w1
          else (None, w1))"
  using assms
  by (auto simp: save_optimizer_def Let_def spec_owns_write_def split: prod.splits option.splits)

lemma valid_context_world_size: "valid_context pc \<Longrightarrow> get_world_size pc GLOBAL \<noteq> 0"
  by (auto simp: valid_context_def get_world_size_def)

lemma json_dump_ok:
  "json_dump doc p w = (None, w1) \<Longrightarrow>
     w1 = w\<lparr>files := (files w)(p \<mapsto> File (Json doc)),
            calls := calls w @ [JsonDump p doc]\<rparr>"
  by (auto simp: json_dump_def log_call_def dest!: write_file_ok)

lemma json_dump_err:
  "json_dump doc p w = (Some e, w1) \<Longrightarrow> w1 = w\<lparr>calls := calls w @ [JsonDump p doc]\<rparr>"
  by (auto simp: json_dump_def log_call_def dest!: write_file_err)

lemmas step_results = mkdir_ok mkdir_err json_dump_ok json_dump_err torch_save_ok torch_save_err

lemma save_optimizer_first_call:
  "\<exists>rest. calls (snd (save_optimizer opt pc root w)) = calls w @ Mkdir (root @ [''optimizer'']) # rest"
  by (auto simp: save_optimizer_def Let_def torch_save_calls split: prod.splits option.splits
           dest!: mkdir_ok mkdir_err json_dump_ok json_dump_err)

lemma save_optimizer_dir:
  "save_optimizer opt pc root w = (None, w') \<Longrightarrow> files w' (root @ [''optimizer'']) = Some Dir"
  by (auto simp: save_optimizer_def Let_def split: prod.splits option.splits if_splits
           dest!: step_results)

lemma save_optimizer_no_manifest:
  "get_world_size pc GLOBAL \<noteq> 0 \<Longrightarrow>
     JsonDump p doc \<notin> set (new_calls w (snd (save_optimizer opt pc root w)))"
  by (auto simp: save_optimizer_valid new_calls_def torch_save_calls split: prod.splits option.splits
           dest!: mkdir_ok mkdir_err)

lemma save_optimizer_torch_save_paths:
  assumes "get_world_size pc GLOBAL \<noteq> 0" and "fst (mkdir (root @ [''optimizer'']) w) = None"
  shows "torch_save_paths (new_calls w (snd (save_optimizer opt pc root w))) =
     (if spec_owns_write (inherit_from opt ZeroDistributedOptimizer) (get_local_rank pc DATA)
      then [root @ [''optimizer'', optimizer_filename pc (inherit_from opt ZeroDistributedOptimizer)]]
      else [])"
proof -
  obtain w1 where m: "mkdir (root @ [''optimizer'']) w = (None, w1)"
    using assms(2) by (cases "mkdir (root @ [''optimizer'']) w") auto
  have c: "calls w1 = calls w @ [Mkdir (root @ [''optimizer''])]"
    using mkdir_calls [of "root @ [''optimizer'']" w] m by simp
  show ?thesis
    by (simp add: save_optimizer_valid [OF assms(1)] m new_calls_def torch_save_calls c)
qed

lemma save_optimizer_skip:
  "get_world_size pc GLOBAL \<noteq> 0 \<Longrightarrow> fst (mkdir (root @ [''optimizer'']) w) = None \<Longrightarrow>
   \<not> spec_owns_write (inherit_from opt ZeroDistributedOptimizer) (get_local_rank pc DATA) \<Longrightarrow>
   save_optimizer opt pc root w = (None, snd (mkdir (root @ [''optimizer'']) w))"
  by (auto simp: save_optimizer_valid split: prod.splits option.splits)

lemma save_optimizer_written:
  "spec_owns_write (inherit_from opt ZeroDistributedOptimizer) (get_local_rank pc DATA) \<Longrightarrow>
   save_optimizer opt pc root w = (None, w') \<Longrightarrow>
   files w' (root @ [''optimizer'', optimizer_filename pc (inherit_from opt ZeroDistributedOptimizer)])
     = Some (File (Pickle (state_dict opt)))"
  by (auto simp: save_optimizer_def Let_def spec_owns_write_def split: prod.splits option.splits if_splits
           dest!: step_results)

lemma mkdir_ok_dir: "fst (mkdir p w) = None \<Longrightarrow> files (snd (mkdir p w)) p = Some Dir"
  by (auto simp: mkdir_def Let_def log_call_def split: if_splits)

text \<open>The directory is created with its parents, and creating it again changes nothing.\<close>

lemma mkdir_parents:
  "fst (mkdir p w) = None \<Longrightarrow> prefix q p \<Longrightarrow> files (snd (mkdir p w)) q = Some Dir"
  by (auto simp: mkdir_def Let_def log_call_def split: if_splits)

lemma mkdir_idempotent:
  assumes "fst (mkdir p w) = None"
  shows "fst (mkdir p (snd (mkdir p w))) = None
         \<and> files (snd (mkdir p (snd (mkdir p w)))) = files (snd (mkdir p w))"
proof -
  obtain w1 where m: "mkdir p w = (None, w1)"
    using assms by (cases "mkdir p w") auto
  have f: "files w1 = (\<lambda>q. if prefix q p then Some Dir else files w q)"
    using mkdir_ok [OF m] by simp
  have "\<not> is_file (files w1 p)" "\<not> list_ex (\<lambda>q. is_file (files w1 q)) (prefixes p)"
    by (auto simp: f list_ex_iff)
  then have "fst (mkdir p w1) = None \<and> files (snd (mkdir p w1)) = files w1"
    by (auto simp: mkdir_def Let_def log_call_def f)
  then show ?thesis
    by (simp add: m)
qed

text \<open>
  C3: \<^verbatim>\<open>save_optimizer\<close> writes the state file if and only if the ownership predicate
  holds. In a valid context, once the directory is there, the only \<^verbatim>\<open>torch.save\<close> of an
  owner goes to the shard named by \<^verbatim>\<open>optimizer_filename\<close>, and a process that is not an
  owner makes no \<^verbatim>\<open>torch.save\<close> at all and returns without an error, leaving the world
  as \<^verbatim>\<open>mkdir\<close> left it. The predicate is: the optimizer inherits from
  \<^verbatim>\<open>ZeroDistributedOptimizer\<close>, or the data-parallel rank is 0; so every process owns
  a write in SHARDED mode, and exactly those of data rank 0 in REPLICATED mode.
\<close>

theorem save_optimizer_ownership:
  assumes "valid_context pc" and "fst (mkdir (root @ [''optimizer'']) w) = None"
  shows "torch_save_paths (new_calls w (snd (save_optimizer opt pc root w))) =
           (if spec_owns_write (inherit_from opt ZeroDistributedOptimizer) (get_local_rank pc DATA)
            then [root @ [''optimizer'',
                    optimizer_filename pc (inherit_from opt ZeroDistributedOptimizer)]]
            else [])
         \<and> (if spec_owns_write (inherit_from opt ZeroDistributedOptimizer) (get_local_rank pc DATA)
            then save_optimizer opt pc root w =
                   torch_save (state_dict opt)
                     (root @ [''optimizer'',
                        optimizer_filename pc (inherit_from opt ZeroDistributedOptimizer)])
                     (snd (mkdir (root @ [''optimizer'']) w))
            else save_optimizer opt pc root w = (None, snd (mkdir (root @ [''optimizer'']) w)))
         \<and> spec_owns_write (inherit_from opt ZeroDistributedOptimizer) (get_local_rank pc DATA)
             = (inherit_from opt ZeroDistributedOptimizer \<or> get_local_rank pc DATA = 0)"
proof -
  have ws: "get_world_size pc GLOBAL \<noteq> 0"
    using assms(1) by (rule valid_context_world_size)
  obtain w1 where m: "mkdir (root @ [''optimizer'']) w = (None, w1)"
    using assms(2) by (cases "mkdir (root @ [''optimizer'']) w") auto
  have "save_optimizer opt pc root w =
          (if spec_owns_write (inherit_from opt ZeroDistributedOptimizer) (get_local_rank pc DATA)
           then torch_save (state_dict opt)
                  (root @ [''optimizer'',
                     optimizer_filename pc (inherit_from opt ZeroDistributedOptimizer)]) w1
           else (None, w1))"
    by (simp add: save_optimizer_valid [OF ws] m)
  then show ?thesis
    using save_optimizer_torch_save_paths [OF ws assms(2), of opt]
    by (simp add: m spec_owns_write_def)
qed

theorem save_optimizer_ownership_witness:
  "valid_context (mk_context (0, 1) (1, 2) (0, 1) (1, 2))
   \<and> fst (mkdir [''ckpt'', ''optimizer''] (empty_world :: (string \<times> nat) list world)) = None
   \<and> \<not> spec_owns_write False (get_local_rank (mk_context (0, 1) (1, 2) (0, 1) (1, 2)) DATA)
   \<and> torch_save_paths (new_calls empty_world
        (snd (save_optimizer (replicated_optimizer [(''step'', 3::nat)])
                (mk_context (0, 1) (1, 2) (0, 1) (1, 2)) [''ckpt''] empty_world))) = []
   \<and> torch_save_paths (new_calls empty_world
        (snd (save_optimizer (sharded_optimizer [(''step'', 3::nat)])
                (mk_context (0, 1) (1, 2) (0, 1) (1, 2)) [''ckpt''] empty_world)))
       = [[''ckpt'', ''optimizer'', ''optimizer_pp-0-of-1_dp-1-of-2_tp-0-of-1.pt'']]"
proof -
  let ?pc = "mk_context (0, 1) (1, 2) (0, 1) (1, 2)"
  let ?w = "empty_world :: (string \<times> nat) list world"
  have v: "valid_context ?pc" by (simp add: eval_defs)
  have m: "fst (mkdir ([''ckpt''] @ [''optimizer'']) ?w) = None" by (simp add: eval_defs)
  show ?thesis
    using save_optimizer_ownership [OF v m, of "replicated_optimizer [(''step'', 3::nat)]"]
      save_optimizer_ownership [OF v m, of "sharded_optimizer [(''step'', 3::nat)]"] v m
    by (simp add: eval_defs)
qed

text \<open>
  C2: the claim is that the process of global rank 0 writes the manifest
  \<^verbatim>\<open>optimizer_config.json\<close>. The code tests the world size of the global group against 0,
  not the rank: on the single process of a world of size 1, whose global rank is 0, the
  save succeeds, makes no \<^verbatim>\<open>json.dump\<close>, and leaves no manifest behind.
\<close>

theorem save_optimizer_rank0_no_manifest:
  "valid_context (mk_context (0, 1) (0, 1) (0, 1) (0, 1))
   \<and> get_global_rank (mk_context (0, 1) (0, 1) (0, 1) (0, 1)) = 0
   \<and> fst (save_optimizer (replicated_optimizer [(''step'', 3::nat)])
            (mk_context (0, 1) (0, 1) (0, 1) (0, 1)) [''ckpt''] empty_world) = None
   \<and> files (snd (save_optimizer (replicated_optimizer [(''step'', 3::nat)])
            (mk_context (0, 1) (0, 1) (0, 1) (0, 1)) [''ckpt''] empty_world))
        [''ckpt'', ''optimizer'', ''optimizer_config.json''] = None
   \<and> calls (snd (save_optimizer (replicated_optimizer [(''step'', 3::nat)])
            (mk_context (0, 1) (0, 1) (0, 1) (0, 1)) [''ckpt''] empty_world))
       = [Mkdir [''ckpt'', ''optimizer''],
          TorchSave [''ckpt'', ''optimizer'', ''optimizer_pp-0-of-1_tp-0-of-1.pt''] [(''step'', 3)]]"
  by (simp add: save_optimizer_def eval_defs)

subsection \<open>The scheduler state, and the two loads unfolded\<close>

lemma save_lr_scheduler_skip:
  "get_global_rank pc > 0 \<Longrightarrow> save_lr_scheduler s pc root w = (None, w)"
  by (simp add: save_lr_scheduler_def)

lemma lr_scheduler_filename_eq: "lr_scheduler_filename = ''lr_scheduler.pt''"
  by (simp add: lr_scheduler_filename_def fstring_def)

lemma save_lr_scheduler_rank0:
  "get_global_rank pc = 0 \<Longrightarrow>
   save_lr_scheduler s pc root w =
     (case mkdir (root @ [''lr_scheduler'']) w of
        (Some e, w1) \<Rightarrow> (Some e, w1)
      | (None, w1) \<Rightarrow>
          torch_save (sched_state_dict s) (root @ [''lr_scheduler'', ''lr_scheduler.pt'']) w1)"
  by (auto simp: save_lr_scheduler_def lr_scheduler_filename_eq Let_def split: prod.splits option.splits)

lemma save_lr_scheduler_paths:
  "set (torch_save_paths (new_calls w (snd (save_lr_scheduler s pc root w))))
     \<subseteq> {root @ [''lr_scheduler'', ''lr_scheduler.pt'']}"
  by (cases "get_global_rank pc = 0")
     (auto simp: save_lr_scheduler_rank0 save_lr_scheduler_skip new_calls_def torch_save_calls
           split: prod.splits option.splits dest!: mkdir_ok mkdir_err)

lemma save_lr_scheduler_writes_iff:
  assumes "fst (mkdir (root @ [''lr_scheduler'']) w) = None"
  shows "torch_save_paths (new_calls w (snd (save_lr_scheduler s pc root w))) =
     (if get_global_rank pc = 0 then [root @ [''lr_scheduler'', ''lr_scheduler.pt'']] else [])"
proof -
  obtain w1 where m: "mkdir (root @ [''lr_scheduler'']) w = (None, w1)"
    using assms by (cases "mkdir (root @ [''lr_scheduler'']) w") auto
  have c: "calls w1 = calls w @ [Mkdir (root @ [''lr_scheduler''])]"
    using mkdir_calls [of "root @ [''lr_scheduler'']" w] m by simp
  show ?thesis
    by (cases "get_global_rank pc = 0")
       (simp_all add: save_lr_scheduler_rank0 save_lr_scheduler_skip m c new_calls_def torch_save_calls)
qed

lemma save_lr_scheduler_written:
  "get_global_rank pc = 0 \<Longrightarrow> save_lr_scheduler s pc root w = (None, w') \<Longrightarrow>
   files w' (root @ [''lr_scheduler'', ''lr_scheduler.pt'']) = Some (File (Pickle (sched_state_dict s)))"
  by (auto simp: save_lr_scheduler_rank0 split: prod.splits option.splits dest!: step_results)

lemma load_lr_scheduler_unfold:
  "load_lr_scheduler s root w =
     (case files w (root @ [''lr_scheduler'', ''lr_scheduler.pt'']) of
        Some (File (Pickle obj)) \<Rightarrow>
          (None, s\<lparr>sched_state := obj\<rparr>,
           w\<lparr>calls := calls w @ [TorchLoad (root @ [''lr_scheduler'', ''lr_scheduler.pt'']) None,
                                  LoadStateDict obj]\<rparr>)
      | n \<Rightarrow>
          (Some (case n of None \<Rightarrow> FileNotFoundError | Some Dir \<Rightarrow> IsADirectoryError
                   | Some (File c) \<Rightarrow> UnpicklingError), s,
           w\<lparr>calls := calls w @ [TorchLoad (root @ [''lr_scheduler'', ''lr_scheduler.pt'']) None]\<rparr>))"
  by (simp add: load_lr_scheduler_def lr_scheduler_filename_eq torch_load_def log_call_def Let_def
        sched_load_state_dict_def split: option.splits node.splits content.splits)

lemma load_optimizer_unfold:
  "load_optimizer opt pc root ml w =
     (let p = root @ [''optimizer'', optimizer_filename pc (inherit_from opt ZeroDistributedOptimizer)];
          loc = (if inherit_from opt ZeroDistributedOptimizer then ml else Some ''cpu'') in
      case files w p of
        Some (File (Pickle obj)) \<Rightarrow>
          (None, opt\<lparr>state := obj\<rparr>,
           w\<lparr>calls := calls w @ [TorchLoad p loc, LoadStateDict obj]\<rparr>)
      | n \<Rightarrow>
          (Some (case n of None \<Rightarrow> FileNotFoundError | Some Dir \<Rightarrow> IsADirectoryError
                   | Some (File c) \<Rightarrow> UnpicklingError), opt,
           w\<lparr>calls := calls w @ [TorchLoad p loc]\<rparr>))"
  by (simp add: load_optimizer_def torch_load_def log_call_def Let_def
        load_state_dict_def split: option.splits node.splits content.splits)


lemma new_calls_upd [simp]: "new_calls w (w\<lparr>calls := calls w @ cs\<rparr>) = cs"
  by (simp add: new_calls_def)

text \<open>
  C6: the scheduler state has a single writer and a single, constant file.
  \<^verbatim>\<open>save_lr_scheduler\<close> calls \<^verbatim>\<open>torch.save\<close> exactly when the caller's global rank is 0
  (once its directory is there), a caller of higher rank returns with the world untouched,
  and no \<^verbatim>\<open>torch.save\<close> ever goes anywhere but \<^verbatim>\<open>root/lr_scheduler/lr_scheduler.pt\<close>.
  \<^verbatim>\<open>load_lr_scheduler\<close> takes no parallel context: whoever calls it, its first call reads
  that same path, and after a successful save by rank 0 it returns the saved state.
\<close>

theorem lr_scheduler_singleton:
  "(fst (mkdir (root @ [''lr_scheduler'']) w) = None \<longrightarrow>
      torch_save_paths (new_calls w (snd (save_lr_scheduler s pc root w))) =
        (if get_global_rank pc = 0 then [root @ [''lr_scheduler'', ''lr_scheduler.pt'']] else []))
   \<and> set (torch_save_paths (new_calls w (snd (save_lr_scheduler s pc root w))))
        \<subseteq> {root @ [''lr_scheduler'', ''lr_scheduler.pt'']}
   \<and> (get_global_rank pc > 0 \<longrightarrow> save_lr_scheduler s pc root w = (None, w))
   \<and> (get_global_rank pc = 0 \<and> fst (save_lr_scheduler s pc root w) = None \<longrightarrow>
        files (snd (save_lr_scheduler s pc root w)) (root @ [''lr_scheduler'', ''lr_scheduler.pt''])
          = Some (File (Pickle (sched_state_dict s)))
        \<and> fst (load_lr_scheduler s' root (snd (save_lr_scheduler s pc root w))) = None
        \<and> sched_state (fst (snd (load_lr_scheduler s' root (snd (save_lr_scheduler s pc root w)))))
          = sched_state_dict s)
   \<and> take 1 (new_calls w (snd (snd (load_lr_scheduler s' root w))))
        = [TorchLoad (root @ [''lr_scheduler'', ''lr_scheduler.pt'']) None]"
proof -
  have a: "fst (mkdir (root @ [''lr_scheduler'']) w) = None \<longrightarrow>
      torch_save_paths (new_calls w (snd (save_lr_scheduler s pc root w))) =
        (if get_global_rank pc = 0 then [root @ [''lr_scheduler'', ''lr_scheduler.pt'']] else [])"
    using save_lr_scheduler_writes_iff by blast
  have b: "get_global_rank pc > 0 \<longrightarrow> save_lr_scheduler s pc root w = (None, w)"
    by (simp add: save_lr_scheduler_skip)
  have c: "get_global_rank pc = 0 \<and> fst (save_lr_scheduler s pc root w) = None \<longrightarrow>
        files (snd (save_lr_scheduler s pc root w)) (root @ [''lr_scheduler'', ''lr_scheduler.pt''])
          = Some (File (Pickle (sched_state_dict s)))"
    using save_lr_scheduler_written [of pc s root w "snd (save_lr_scheduler s pc root w)"]
    by (metis prod.collapse)
  have d: "files w' (root @ [''lr_scheduler'', ''lr_scheduler.pt'']) = Some (File (Pickle obj)) \<Longrightarrow>
             fst (load_lr_scheduler s' root w') = None
             \<and> sched_state (fst (snd (load_lr_scheduler s' root w'))) = obj" for w' obj
    by (simp add: load_lr_scheduler_unfold)
  have e: "take 1 (new_calls w (snd (snd (load_lr_scheduler s' root w))))
        = [TorchLoad (root @ [''lr_scheduler'', ''lr_scheduler.pt'']) None]"
    by (simp add: load_lr_scheduler_unfold split: option.splits node.splits content.splits)
  show ?thesis
    using a b c d e save_lr_scheduler_paths [of w s pc root] by blast
qed

theorem lr_scheduler_singleton_witness:
  "fst (mkdir [''ckpt'', ''lr_scheduler''] (empty_world :: (string \<times> nat) list world)) = None
   \<and> get_global_rank (mk_context (0, 2) (0, 2) (0, 1) (0, 4)) = 0
   \<and> get_global_rank (mk_context (1, 2) (0, 2) (0, 1) (2, 4)) > 0
   \<and> torch_save_paths (new_calls empty_world
        (snd (save_lr_scheduler \<lparr>sched_state = [(''last_epoch'', 7::nat)]\<rparr>
                (mk_context (0, 2) (0, 2) (0, 1) (0, 4)) [''ckpt''] empty_world)))
       = [[''ckpt'', ''lr_scheduler'', ''lr_scheduler.pt'']]
   \<and> save_lr_scheduler \<lparr>sched_state = [(''last_epoch'', 7::nat)]\<rparr>
        (mk_context (1, 2) (0, 2) (0, 1) (2, 4)) [''ckpt''] empty_world = (None, empty_world)"
proof -
  let ?w = "empty_world :: (string \<times> nat) list world"
  let ?s = "\<lparr>sched_state = [(''last_epoch'', 7::nat)]\<rparr>"
  let ?p0 = "mk_context (0, 2) (0, 2) (0, 1) (0, 4)"
  let ?p2 = "mk_context (1, 2) (0, 2) (0, 1) (2, 4)"
  have m: "fst (mkdir ([''ckpt''] @ [''lr_scheduler'']) ?w) = None"
    by (simp add: eval_defs)
  have g0: "get_global_rank ?p0 = 0"
    by (simp add: context_defs)
  have g2: "get_global_rank ?p2 > 0"
    by (simp add: context_defs)
  have a: "torch_save_paths (new_calls ?w (snd (save_lr_scheduler ?s ?p0 [''ckpt''] ?w)))
             = [[''ckpt'', ''lr_scheduler'', ''lr_scheduler.pt'']]"
    using lr_scheduler_singleton [of "[''ckpt'']" ?w ?s ?p0 ?s] m g0 by simp
  have b: "save_lr_scheduler ?s ?p2 [''ckpt''] ?w = (None, ?w)"
    using lr_scheduler_singleton [of "[''ckpt'']" ?w ?s ?p2 ?s] g2 by simp
  show ?thesis
    using m g0 g2 a b by simp
qed

subsection \<open>Round trip and loading\<close>

text \<open>
  C5: round trip. When a process owns its write and \<^verbatim>\<open>save_optimizer\<close> returns without
  an error, \<^verbatim>\<open>load_optimizer\<close> with the same context, the same root and an optimizer of
  the same mode reads the shard this process wrote, raises nothing, and hands to
  \<^verbatim>\<open>load_state_dict\<close> the very mapping that was saved.
\<close>

theorem save_load_roundtrip:
  assumes "spec_owns_write (inherit_from opt ZeroDistributedOptimizer) (get_local_rank pc DATA)"
    and "save_optimizer opt pc root w = (None, w')"
    and "inherit_from opt' ZeroDistributedOptimizer = inherit_from opt ZeroDistributedOptimizer"
  shows "load_optimizer opt' pc root ml w' =
           (None, opt'\<lparr>state := state_dict opt\<rparr>,
            w'\<lparr>calls := calls w' @
               [TorchLoad (root @ [''optimizer'',
                   optimizer_filename pc (inherit_from opt ZeroDistributedOptimizer)])
                  (if inherit_from opt ZeroDistributedOptimizer then ml else Some ''cpu''),
                LoadStateDict (state_dict opt)]\<rparr>)"
  using save_optimizer_written [OF assms(1,2)]
  by (simp add: load_optimizer_unfold assms(3))

theorem save_load_roundtrip_witness:
  "spec_owns_write False (get_local_rank (mk_context (1, 2) (0, 2) (0, 1) (2, 4)) DATA)
   \<and> fst (save_optimizer (replicated_optimizer [(''step'', 3::nat)])
            (mk_context (1, 2) (0, 2) (0, 1) (2, 4)) [''ckpt''] empty_world) = None
   \<and> fst (load_optimizer (replicated_optimizer []) (mk_context (1, 2) (0, 2) (0, 1) (2, 4))
            [''ckpt''] (Some ''cuda'')
            (snd (save_optimizer (replicated_optimizer [(''step'', 3::nat)])
                    (mk_context (1, 2) (0, 2) (0, 1) (2, 4)) [''ckpt''] empty_world))) = None
   \<and> state (fst (snd (load_optimizer (replicated_optimizer [])
            (mk_context (1, 2) (0, 2) (0, 1) (2, 4)) [''ckpt''] (Some ''cuda'')
            (snd (save_optimizer (replicated_optimizer [(''step'', 3::nat)])
                    (mk_context (1, 2) (0, 2) (0, 1) (2, 4)) [''ckpt''] empty_world)))))
       = [(''step'', 3)]"
proof -
  let ?pc = "mk_context (1, 2) (0, 2) (0, 1) (2, 4)"
  let ?opt = "replicated_optimizer [(''step'', 3::nat)]"
  let ?r = "save_optimizer ?opt ?pc [''ckpt''] empty_world"
  have o: "spec_owns_write (inherit_from ?opt ZeroDistributedOptimizer) (get_local_rank ?pc DATA)"
    by (simp add: eval_defs)
  have f: "fst ?r = None"
    by (simp add: save_optimizer_def eval_defs)
  then have s: "?r = (None, snd ?r)"
    by (metis prod.collapse)
  have m: "inherit_from (replicated_optimizer ([] :: (string \<times> nat) list)) ZeroDistributedOptimizer
             = inherit_from ?opt ZeroDistributedOptimizer"
    by (simp add: eval_defs)
  show ?thesis
    using save_load_roundtrip [OF o s m, of "Some ''cuda''"] o f
    by (simp add: replicated_optimizer_def inherit_from_def state_dict_def)
qed


lemma load_optimizer_not_found_iff:
  "(fst (load_optimizer opt pc root ml w) = Some FileNotFoundError) =
     (files w (root @ [''optimizer'',
        optimizer_filename pc (inherit_from opt ZeroDistributedOptimizer)]) = None)"
  by (simp add: load_optimizer_unfold Let_def split: option.splits node.splits content.splits)

lemma load_lr_scheduler_not_found_iff:
  "(fst (load_lr_scheduler s root w) = Some FileNotFoundError) =
     (files w (root @ [''lr_scheduler'', ''lr_scheduler.pt'']) = None)"
  by (simp add: load_lr_scheduler_unfold split: option.splits node.splits content.splits)

lemma load_optimizer_one_attempt:
  "length (new_calls w (snd (snd (load_optimizer opt pc root ml w)))) \<le> 2
   \<and> length (torch_load_locations (new_calls w (snd (snd (load_optimizer opt pc root ml w))))) = 1"
  by (simp add: load_optimizer_unfold Let_def split: option.splits node.splits content.splits)

lemma optimizer_filename_not_manifest [simp]:
  "optimizer_filename pc z \<noteq> ''optimizer_config.json''"
  "''optimizer_config.json'' \<noteq> optimizer_filename pc z"
  by (auto simp: optimizer_filename_def fstring_def Let_def)

text \<open>In SHARDED mode a loader whose topology differs from the saver's finds no shard.\<close>

lemma load_optimizer_sharded_mismatch:
  assumes "inherit_from opt ZeroDistributedOptimizer"
    and "inherit_from opt' ZeroDistributedOptimizer"
    and "save_optimizer opt pc root empty_world = (None, w')"
    and "get_world_size pc' m \<noteq> get_world_size pc m" and "m \<in> {PIPELINE, DATA, TENSOR}"
  shows "fst (load_optimizer opt' pc' root ml w') = Some FileNotFoundError"
proof -
  have n: "optimizer_filename pc' True \<noteq> optimizer_filename pc True"
    using assms(4,5) by (auto simp: optimizer_filename_sharded_eq)
  have "files w' (root @ [''optimizer'', optimizer_filename pc' True]) = None"
    using assms(1,3) n
    by (auto simp: save_optimizer_def Let_def empty_world_def
             split: prod.splits option.splits if_splits dest!: step_results)
  then show ?thesis
    by (simp add: load_optimizer_not_found_iff assms(2))
qed

text \<open>
  C7: the claim is that a missing shard, and only a missing shard, raises the
  shard-not-found error (see \<open>load_optimizer_not_found_iff\<close>, which holds), and that a
  run loading with another world size gets this error instead of a silent misload. The
  second part fails in REPLICATED mode, because the name leaves the tensor coordinate
  out: a state saved by tensor rank 1 of 2 is loaded, without any error, by tensor
  rank 3 of 4.
\<close>

theorem load_optimizer_tensor_resize_misload:
  "valid_context (mk_context (0, 1) (0, 1) (1, 2) (1, 2))
   \<and> valid_context (mk_context (0, 1) (0, 1) (3, 4) (3, 4))
   \<and> get_world_size (mk_context (0, 1) (0, 1) (3, 4) (3, 4)) TENSOR
       \<noteq> get_world_size (mk_context (0, 1) (0, 1) (1, 2) (1, 2)) TENSOR
   \<and> fst (save_optimizer (replicated_optimizer [(''step'', 3::nat)])
            (mk_context (0, 1) (0, 1) (1, 2) (1, 2)) [''ckpt''] empty_world) = None
   \<and> fst (load_optimizer (replicated_optimizer [])
            (mk_context (0, 1) (0, 1) (3, 4) (3, 4)) [''ckpt''] None
            (snd (save_optimizer (replicated_optimizer [(''step'', 3::nat)])
                    (mk_context (0, 1) (0, 1) (1, 2) (1, 2)) [''ckpt''] empty_world))) = None
   \<and> state (fst (snd (load_optimizer (replicated_optimizer [])
            (mk_context (0, 1) (0, 1) (3, 4) (3, 4)) [''ckpt''] None
            (snd (save_optimizer (replicated_optimizer [(''step'', 3::nat)])
                    (mk_context (0, 1) (0, 1) (1, 2) (1, 2)) [''ckpt''] empty_world)))))
       = [(''step'', 3)]"
  by (simp add: save_optimizer_def load_optimizer_def eval_defs)

text \<open>
  Further consequences of the REPLICATED name. Two owners of different tensor rank: the
  second save replaces the first.
\<close>

lemma replicated_tensor_shards_overwrite:
  "fst (save_optimizer (replicated_optimizer [(''exp_avg'', 20::nat)])
          (mk_context (0, 1) (0, 1) (1, 2) (1, 2)) [''ckpt'']
          (snd (save_optimizer (replicated_optimizer [(''exp_avg'', 10)])
                  (mk_context (0, 1) (0, 1) (0, 2) (0, 2)) [''ckpt''] empty_world))) = None
   \<and> state (fst (snd (load_optimizer (replicated_optimizer [])
          (mk_context (0, 1) (0, 1) (0, 2) (0, 2)) [''ckpt''] None
          (snd (save_optimizer (replicated_optimizer [(''exp_avg'', 20::nat)])
                  (mk_context (0, 1) (0, 1) (1, 2) (1, 2)) [''ckpt'']
                  (snd (save_optimizer (replicated_optimizer [(''exp_avg'', 10)])
                          (mk_context (0, 1) (0, 1) (0, 2) (0, 2)) [''ckpt''] empty_world)))))))
       = [(''exp_avg'', 20)]"
  by (simp add: save_optimizer_def load_optimizer_def eval_defs)

text \<open>
  In REPLICATED mode the name carries the data-parallel rank, and only data rank 0 saves:
  the shard a process of data rank 1 asks for is never written.
\<close>

lemma replicated_data_rank_1_load:
  "fst (load_optimizer (replicated_optimizer [])
          (mk_context (0, 1) (1, 2) (0, 1) (1, 2)) [''ckpt''] None
          (snd (save_optimizer (replicated_optimizer [(''exp_avg'', 10::nat)])
                  (mk_context (0, 1) (0, 2) (0, 1) (0, 2)) [''ckpt''] empty_world)))
     = Some FileNotFoundError"
  by (simp add: save_optimizer_def load_optimizer_def eval_defs)

text \<open>
  C8: \<^verbatim>\<open>load_optimizer\<close> makes one \<^verbatim>\<open>torch.load\<close>, whose \<^verbatim>\<open>map_location\<close> is \<^verbatim>\<open>"cpu"\<close>
  when the optimizer does not inherit from \<^verbatim>\<open>ZeroDistributedOptimizer\<close> and the caller's
  \<^verbatim>\<open>map_location\<close> when it does. The caller's value is ignored (the location is \<^verbatim>\<open>"cpu"\<close>
  whatever is passed) exactly in REPLICATED mode, and passed through (whatever it is)
  exactly in SHARDED mode.
\<close>

theorem load_optimizer_map_location:
  "torch_load_locations (new_calls w (snd (snd (load_optimizer opt pc root ml w))))
     = [if inherit_from opt ZeroDistributedOptimizer then ml else Some ''cpu'']
   \<and> (\<forall>l. torch_load_locations (new_calls w (snd (snd (load_optimizer opt pc root l w))))
            = [Some ''cpu''])
       = (\<not> inherit_from opt ZeroDistributedOptimizer)
   \<and> (\<forall>l. torch_load_locations (new_calls w (snd (snd (load_optimizer opt pc root l w)))) = [l])
       = inherit_from opt ZeroDistributedOptimizer"
proof -
  have a: "torch_load_locations (new_calls w (snd (snd (load_optimizer opt pc root l w))))
     = [if inherit_from opt ZeroDistributedOptimizer then l else Some ''cpu'']" for l
    by (simp add: load_optimizer_unfold Let_def split: option.splits node.splits content.splits)
  have b: "(\<forall>l :: string option. (if z then l else Some ''cpu'') = Some ''cpu'') = (\<not> z)" for z
    by (cases z) auto
  have c: "(\<forall>l :: string option. (if z then l else Some ''cpu'') = l) = z" for z
    by (cases z) auto
  show ?thesis
    by (simp only: a list.inject simp_thms b c)
qed

subsection \<open>Directory creation\<close>

text \<open>
  C9: \<^verbatim>\<open>save_optimizer\<close> creates \<^verbatim>\<open>root/optimizer\<close> before it looks at ownership. For
  every process the first call is that \<^verbatim>\<open>mkdir\<close>, and whenever the save returns without
  an error the directory exists; a process that does not own a write makes that one call
  and no other, so a skipping call still changes the file system. \<^verbatim>\<open>save_lr_scheduler\<close>
  on a global rank above 0 returns before its \<^verbatim>\<open>mkdir\<close> and leaves the world as it was.
\<close>

theorem save_mkdir_before_ownership:
  "take 1 (new_calls w (snd (save_optimizer opt pc root w))) = [Mkdir (root @ [''optimizer''])]
   \<and> (fst (save_optimizer opt pc root w) = None \<longrightarrow>
        files (snd (save_optimizer opt pc root w)) (root @ [''optimizer'']) = Some Dir)
   \<and> (valid_context pc \<and> fst (mkdir (root @ [''optimizer'']) w) = None
        \<and> \<not> spec_owns_write (inherit_from opt ZeroDistributedOptimizer) (get_local_rank pc DATA) \<longrightarrow>
        save_optimizer opt pc root w = (None, snd (mkdir (root @ [''optimizer'']) w))
        \<and> new_calls w (snd (save_optimizer opt pc root w)) = [Mkdir (root @ [''optimizer''])]
        \<and> files (snd (save_optimizer opt pc root w)) (root @ [''optimizer'']) = Some Dir)
   \<and> (get_global_rank pc > 0 \<longrightarrow> save_lr_scheduler s pc root w = (None, w))"
proof -
  have a: "take 1 (new_calls w (snd (save_optimizer opt pc root w))) = [Mkdir (root @ [''optimizer''])]"
    using save_optimizer_first_call [of opt pc root w] by (auto simp: new_calls_def)
  have b: "fst (save_optimizer opt pc root w) = None \<longrightarrow>
        files (snd (save_optimizer opt pc root w)) (root @ [''optimizer'']) = Some Dir"
    using save_optimizer_dir [of opt pc root w "snd (save_optimizer opt pc root w)"]
    by (metis prod.collapse)
  have c: "save_optimizer opt pc root w = (None, snd (mkdir (root @ [''optimizer'']) w))
        \<and> new_calls w (snd (save_optimizer opt pc root w)) = [Mkdir (root @ [''optimizer''])]
        \<and> files (snd (save_optimizer opt pc root w)) (root @ [''optimizer'']) = Some Dir"
    if h: "valid_context pc" "fst (mkdir (root @ [''optimizer'']) w) = None"
      "\<not> spec_owns_write (inherit_from opt ZeroDistributedOptimizer) (get_local_rank pc DATA)"
  proof -
    have e: "save_optimizer opt pc root w = (None, snd (mkdir (root @ [''optimizer'']) w))"
      using save_optimizer_skip [OF valid_context_world_size [OF h(1)] h(2) h(3)] .
    show ?thesis
      using mkdir_ok_dir [OF h(2)] mkdir_calls [of "root @ [''optimizer'']" w]
      by (simp add: e new_calls_def)
  qed
  have d: "get_global_rank pc > 0 \<longrightarrow> save_lr_scheduler s pc root w = (None, w)"
    by (simp add: save_lr_scheduler_skip)
  show ?thesis
    using a b c d by blast
qed

theorem save_mkdir_before_ownership_witness:
  "valid_context (mk_context (0, 1) (1, 2) (0, 1) (1, 2))
   \<and> get_global_rank (mk_context (0, 1) (1, 2) (0, 1) (1, 2)) > 0
   \<and> \<not> spec_owns_write False (get_local_rank (mk_context (0, 1) (1, 2) (0, 1) (1, 2)) DATA)
   \<and> files (empty_world :: (string \<times> nat) list world) [''ckpt'', ''optimizer''] = None
   \<and> files (snd (save_optimizer (replicated_optimizer [(''step'', 3::nat)])
                (mk_context (0, 1) (1, 2) (0, 1) (1, 2)) [''ckpt''] empty_world))
        [''ckpt'', ''optimizer''] = Some Dir
   \<and> save_lr_scheduler \<lparr>sched_state = [(''last_epoch'', 7::nat)]\<rparr>
        (mk_context (0, 1) (1, 2) (0, 1) (1, 2)) [''ckpt''] empty_world = (None, empty_world)"
proof -
  let ?w = "empty_world :: (string \<times> nat) list world"
  let ?pc = "mk_context (0, 1) (1, 2) (0, 1) (1, 2)"
  let ?opt = "replicated_optimizer [(''step'', 3::nat)]"
  let ?s = "\<lparr>sched_state = [(''last_epoch'', 7::nat)]\<rparr>"
  have v: "valid_context ?pc"
    by (simp add: eval_defs)
  have m: "fst (mkdir ([''ckpt''] @ [''optimizer'']) ?w) = None"
    by (simp add: eval_defs)
  have g: "get_global_rank ?pc > 0"
    by (simp add: context_defs)
  have n: "\<not> spec_owns_write (inherit_from ?opt ZeroDistributedOptimizer) (get_local_rank ?pc DATA)"
    by (simp add: eval_defs)
  have z: "\<not> inherit_from ?opt ZeroDistributedOptimizer"
    by (simp add: eval_defs)
  have e: "files ?w [''ckpt'', ''optimizer''] = None"
    by (simp add: empty_world_def)
  show ?thesis
    using save_mkdir_before_ownership [of ?w ?opt ?pc "[''ckpt'']" ?s] v m g n z e
      mkdir_ok_dir [OF m]
    by simp
qed

subsection \<open>Atomicity of loading\<close>

text \<open>
  C10: loading is all or nothing for the target object. In \<^verbatim>\<open>load_optimizer\<close> and in
  \<^verbatim>\<open>load_lr_scheduler\<close> the file is deserialized before \<^verbatim>\<open>load_state_dict\<close> is called.
  When the file is missing or is not a payload of \<^verbatim>\<open>torch.save\<close>, the error is returned,
  the only call made is the \<^verbatim>\<open>torch.load\<close>, and the optimizer (the scheduler) is the one
  passed in; on success the calls are \<^verbatim>\<open>torch.load\<close>, then \<^verbatim>\<open>load_state_dict\<close>.
\<close>

theorem load_atomic:
  "(fst (load_optimizer opt pc root ml w) \<noteq> None \<longrightarrow>
      fst (snd (load_optimizer opt pc root ml w)) = opt
      \<and> new_calls w (snd (snd (load_optimizer opt pc root ml w))) =
          [TorchLoad (root @ [''optimizer'',
               optimizer_filename pc (inherit_from opt ZeroDistributedOptimizer)])
             (if inherit_from opt ZeroDistributedOptimizer then ml else Some ''cpu'')])
   \<and> (fst (load_optimizer opt pc root ml w) \<noteq> None) =
       (\<forall>obj. files w (root @ [''optimizer'',
               optimizer_filename pc (inherit_from opt ZeroDistributedOptimizer)])
             \<noteq> Some (File (Pickle obj)))
   \<and> (fst (load_optimizer opt pc root ml w) = None \<longrightarrow>
        (\<exists>obj. new_calls w (snd (snd (load_optimizer opt pc root ml w))) =
          [TorchLoad (root @ [''optimizer'',
               optimizer_filename pc (inherit_from opt ZeroDistributedOptimizer)])
             (if inherit_from opt ZeroDistributedOptimizer then ml else Some ''cpu''),
           LoadStateDict obj]))
   \<and> (fst (load_lr_scheduler s root w) \<noteq> None \<longrightarrow>
      fst (snd (load_lr_scheduler s root w)) = s
      \<and> new_calls w (snd (snd (load_lr_scheduler s root w))) =
          [TorchLoad (root @ [''lr_scheduler'', ''lr_scheduler.pt'']) None])
   \<and> (fst (load_lr_scheduler s root w) \<noteq> None) =
       (\<forall>obj. files w (root @ [''lr_scheduler'', ''lr_scheduler.pt'']) \<noteq> Some (File (Pickle obj)))
   \<and> (fst (load_lr_scheduler s root w) = None \<longrightarrow>
        (\<exists>obj. new_calls w (snd (snd (load_lr_scheduler s root w))) =
          [TorchLoad (root @ [''lr_scheduler'', ''lr_scheduler.pt'']) None, LoadStateDict obj]))"
proof -
  have a: "(fst (load_optimizer opt pc root ml w) \<noteq> None \<longrightarrow>
      fst (snd (load_optimizer opt pc root ml w)) = opt
      \<and> new_calls w (snd (snd (load_optimizer opt pc root ml w))) =
          [TorchLoad (root @ [''optimizer'',
               optimizer_filename pc (inherit_from opt ZeroDistributedOptimizer)])
             (if inherit_from opt ZeroDistributedOptimizer then ml else Some ''cpu'')])"
    by (simp add: load_optimizer_unfold Let_def split: option.splits node.splits content.splits)
  have b: "(fst (load_optimizer opt pc root ml w) \<noteq> None) =
       (\<forall>obj. files w (root @ [''optimizer'',
               optimizer_filename pc (inherit_from opt ZeroDistributedOptimizer)])
             \<noteq> Some (File (Pickle obj)))"
    by (simp add: load_optimizer_unfold Let_def split: option.splits node.splits content.splits)
  have c: "(fst (load_optimizer opt pc root ml w) = None \<longrightarrow>
        (\<exists>obj. new_calls w (snd (snd (load_optimizer opt pc root ml w))) =
          [TorchLoad (root @ [''optimizer'',
               optimizer_filename pc (inherit_from opt ZeroDistributedOptimizer)])
             (if inherit_from opt ZeroDistributedOptimizer then ml else Some ''cpu''),
           LoadStateDict obj]))"
    by (simp add: load_optimizer_unfold Let_def split: option.splits node.splits content.splits)
  have d: "(fst (load_lr_scheduler s root w) \<noteq> None \<longrightarrow>
      fst (snd (load_lr_scheduler s root w)) = s
      \<and> new_calls w (snd (snd (load_lr_scheduler s root w))) =
          [TorchLoad (root @ [''lr_scheduler'', ''lr_scheduler.pt'']) None])"
    by (simp add: load_lr_scheduler_unfold split: option.splits node.splits content.splits)
  have e: "(fst (load_lr_scheduler s root w) \<noteq> None) =
       (\<forall>obj. files w (root @ [''lr_scheduler'', ''lr_scheduler.pt'']) \<noteq> Some (File (Pickle obj)))"
    by (simp add: load_lr_scheduler_unfold split: option.splits node.splits content.splits)
  have f: "(fst (load_lr_scheduler s root w) = None \<longrightarrow>
        (\<exists>obj. new_calls w (snd (snd (load_lr_scheduler s root w))) =
          [TorchLoad (root @ [''lr_scheduler'', ''lr_scheduler.pt'']) None, LoadStateDict obj]))"
    by (simp add: load_lr_scheduler_unfold split: option.splits node.splits content.splits)
  show ?thesis
    using a b c d e f by (intro conjI)
qed

theorem load_atomic_witness:
  "fst (load_optimizer (sharded_optimizer [(''step'', 3::nat)])
          (mk_context (0, 1) (1, 2) (0, 1) (1, 2)) [''ckpt''] (Some ''cuda'') empty_world)
     = Some FileNotFoundError
   \<and> fst (snd (load_optimizer (sharded_optimizer [(''step'', 3::nat)])
          (mk_context (0, 1) (1, 2) (0, 1) (1, 2)) [''ckpt''] (Some ''cuda'') empty_world))
     = sharded_optimizer [(''step'', 3)]
   \<and> new_calls empty_world (snd (snd (load_optimizer (sharded_optimizer [(''step'', 3::nat)])
          (mk_context (0, 1) (1, 2) (0, 1) (1, 2)) [''ckpt''] (Some ''cuda'') empty_world)))
     = [TorchLoad [''ckpt'', ''optimizer'', ''optimizer_pp-0-of-1_dp-1-of-2_tp-0-of-1.pt'']
          (Some ''cuda'')]
   \<and> fst (load_lr_scheduler \<lparr>sched_state = [(''last_epoch'', 7::nat)]\<rparr> [''ckpt''] empty_world)
     = Some FileNotFoundError
   \<and> fst (snd (load_lr_scheduler \<lparr>sched_state = [(''last_epoch'', 7::nat)]\<rparr> [''ckpt''] empty_world))
     = \<lparr>sched_state = [(''last_epoch'', 7)]\<rparr>"
proof -
  let ?w = "empty_world :: (string \<times> nat) list world"
  let ?pc = "mk_context (0, 1) (1, 2) (0, 1) (1, 2)"
  let ?opt = "sharded_optimizer [(''step'', 3::nat)]"
  let ?s = "\<lparr>sched_state = [(''last_epoch'', 7::nat)]\<rparr>"
  have z: "inherit_from ?opt ZeroDistributedOptimizer"
    by (simp add: eval_defs)
  have n: "optimizer_filename ?pc True = ''optimizer_pp-0-of-1_dp-1-of-2_tp-0-of-1.pt''"
    by (simp add: eval_defs)
  have o: "fst (load_optimizer ?opt ?pc [''ckpt''] (Some ''cuda'') ?w) = Some FileNotFoundError"
    by (simp add: load_optimizer_not_found_iff empty_world_def)
  have l: "fst (load_lr_scheduler ?s [''ckpt''] ?w) = Some FileNotFoundError"
    by (simp add: load_lr_scheduler_not_found_iff empty_world_def)
  show ?thesis
    using load_atomic [of ?opt ?pc "[''ckpt'']" "Some ''cuda''" ?w ?s] z n o l
    by simp
qed

end
